theory Spec2Isabelle
  imports Complex_Main "HOL-Library.Multiset"
begin

section \<open>Values\<close>

text \<open>
  The document store of \<^verbatim>\<open>scripts/chromadb_setup.py\<close>. A Python \<^verbatim>\<open>str\<close> is modelled
  as a \<^typ>\<open>string\<close> whose characters stand for the code points below 256, so that
  \<^verbatim>\<open>ord\<close> is \<^const>\<open>of_char\<close>. A Python \<^verbatim>\<open>float\<close> is modelled by the rational number it
  denotes: the stub embedding only ever produces the quotients \<open>k / 97\<close> with \<open>k < 97\<close>.
\<close>

type_synonym vector = "rat list"

type_synonym embedding_fn = "string list \<Rightarrow> vector list"

text \<open>
  What \<^verbatim>\<open>json.loads\<close> returns and \<^verbatim>\<open>json.dumps\<close> accepts. An object is the association
  list of a \<^verbatim>\<open>dict\<close>, in insertion order, every key occurring once.
\<close>

datatype json =
    JNull
  | JBool bool
  | JNum rat
  | JStr string
  | JArr "json list"
  | JObj "(string \<times> json) list"

text \<open>The exceptions the module's own statements raise.\<close>

datatype error = JSONDecodeError | AttributeError | TypeError | IndexError

subsection \<open>Strings\<close>

text \<open>\<^verbatim>\<open>s.ljust(n, c)\<close>: pad on the right up to width \<open>n\<close>; longer strings are unchanged.\<close>

definition ljust :: "nat \<Rightarrow> char \<Rightarrow> string \<Rightarrow> string" where
  "ljust n c s = s @ replicate (n - length s) c"

text \<open>\<^verbatim>\<open>str.lower\<close> on one code point below 256: the letters A-Z and the Latin-1 capitals.\<close>

definition lower_char :: "char \<Rightarrow> char" where
  "lower_char c =
     (let n = (of_char c :: nat)
      in if (65 \<le> n \<and> n \<le> 90) \<or> (192 \<le> n \<and> n \<le> 222 \<and> n \<noteq> 215)
         then char_of (n + 32) else c)"

definition lower :: "string \<Rightarrow> string" where
  "lower s = map lower_char s"

text \<open>\<^verbatim>\<open>str.isspace\<close> on one code point below 256.\<close>

definition isspace :: "char \<Rightarrow> bool" where
  "isspace c =
     (let n = (of_char c :: nat)
      in (9 \<le> n \<and> n \<le> 13) \<or> (28 \<le> n \<and> n \<le> 32) \<or> n = 133 \<or> n = 160)"

text \<open>
  \<^verbatim>\<open>s.split()\<close> with no separator: the maximal runs of non-whitespace characters, in
  order. The first argument is the run read so far.
\<close>

fun split_from :: "string \<Rightarrow> string \<Rightarrow> string list" where
  "split_from cur [] = (if cur = [] then [] else [cur])"
| "split_from cur (c # cs) =
     (if isspace c
      then (if cur = [] then split_from [] cs else cur # split_from [] cs)
      else split_from (cur @ [c]) cs)"

definition split :: "string \<Rightarrow> string list" where
  "split s = split_from [] s"

text \<open>\<^verbatim>\<open>sub in s\<close> for strings.\<close>

fun starts_with :: "string \<Rightarrow> string \<Rightarrow> bool" where
  "starts_with [] s = True"
| "starts_with (a # as) [] = False"
| "starts_with (a # as) (c # cs) = (a = c \<and> starts_with as cs)"

fun contains :: "string \<Rightarrow> string \<Rightarrow> bool" where
  "contains sub [] = (sub = [])"
| "contains sub (c # cs) = (starts_with sub (c # cs) \<or> contains sub cs)"

text \<open>\<^verbatim>\<open>str(n)\<close> for a natural number: its decimal digits.\<close>

definition digit :: "nat \<Rightarrow> char" where
  "digit d = char_of (48 + d)"

fun str_nat :: "nat \<Rightarrow> string" where
  "str_nat n = (if n < 10 then [digit n] else str_nat (n div 10) @ [digit (n mod 10)])"

declare str_nat.simps [simp del]

text \<open>\<^verbatim>\<open>xs[i]\<close> for \<open>i \<ge> 0\<close>: out of range raises.\<close>

definition index :: "'a list \<Rightarrow> nat \<Rightarrow> error + 'a" where
  "index xs i = (if i < length xs then Inr (xs ! i) else Inl IndexError)"

text \<open>\<^verbatim>\<open>xs[:k]\<close>: a negative \<open>k\<close> counts from the end.\<close>

definition slice_to :: "'a list \<Rightarrow> int \<Rightarrow> 'a list" where
  "slice_to xs k = (if 0 \<le> k then take (nat k) xs else take (length xs - nat (- k)) xs)"

section \<open>Embeddings\<close>

text \<open>
  \<^verbatim>\<open>_fake_embed\<close>, lines 68-72. On a string \<^verbatim>\<open>s or ""\<close> is \<^verbatim>\<open>s\<close>.
\<close>

definition vec :: "string \<Rightarrow> vector" where
  "vec s0 =
     (let s = take 256 s0
      in map (\<lambda>c. rat_of_nat (of_char c mod 97) / 97) (take 32 (ljust 32 (CHR 0x00) s)))"

definition fake_embed :: embedding_fn where
  "fake_embed texts = map vec texts"

text \<open>
  \<^verbatim>\<open>get_embedding_function\<close>, lines 74-115. Each provider tier is what its construction
  yields in the environment: the callable it returns, or nothing when the library is
  missing, the key is unset, or the construction raised (lines 95, 103, 111 catch that and
  go on to the next tier). A provider's callable is taken to return; the list it returns
  may be shorter than the list of texts.
\<close>

record providers =
  groq :: "embedding_fn option"
  hugging_face :: "embedding_fn option"
  sentence_transformer :: "embedding_fn option"

definition get_embedding_function :: "providers \<Rightarrow> embedding_fn" where
  "get_embedding_function p =
     (case groq p of Some f \<Rightarrow> f
      | None \<Rightarrow>
     (case hugging_face p of Some f \<Rightarrow> f
      | None \<Rightarrow>
     (case sentence_transformer p of Some f \<Rightarrow> f
      | None \<Rightarrow> fake_embed)))"

text \<open>\<^verbatim>\<open>_EmbeddingAdapter\<close>, lines 118-126.\<close>

datatype EmbeddingAdapter = EmbeddingAdapter (fn: embedding_fn)

definition embed_documents :: "EmbeddingAdapter \<Rightarrow> string list \<Rightarrow> vector list" where
  "embed_documents self texts = fn self texts"

definition embed_query :: "EmbeddingAdapter \<Rightarrow> string \<Rightarrow> error + vector" where
  "embed_query self text = index (fn self [text]) 0"

definition embed :: "EmbeddingAdapter \<Rightarrow> string list \<Rightarrow> vector list" where
  "embed self texts = fn self texts"

section \<open>The world outside the module\<close>

text \<open>
  The module works on two pieces of persistent state: the vector store's persist directory
  and the fallback file \<^verbatim>\<open>data/chromadb_store.json\<close>. The directory is absent or holds
  the names of its entries. The fallback file is absent, or present with a content that
  \<^verbatim>\<open>read_text\<close> followed by \<^verbatim>\<open>json.loads\<close> rejects, or present holding a JSON value;
  \<^verbatim>\<open>json.dumps\<close> followed by \<^verbatim>\<open>json.loads\<close> is taken to give the value back, and
  \<^verbatim>\<open>write_text\<close> to succeed.
\<close>

type_synonym handle = nat

type_synonym dir = "string list option"

datatype store_file = NoFile | Garbage | Json json

text \<open>The calls that leave the module, in the order they are made.\<close>

datatype event =
    Chroma_call dir
  | Rmtree
  | Mkdir
  | Add_texts handle "string list" "json list"
  | Persist handle
  | Similarity_search handle string int

record world =
  persist_dir :: dir
  fallback_store :: store_file
  calls :: "event list"

text \<open>A \<^verbatim>\<open>Document\<close> of the vector store: its page content and its metadata.\<close>

type_synonym document = "string \<times> json"

text \<open>
  The libraries the module calls. Every call sees the world at the moment it is made,
  its history included, so a library may answer the second call differently from the
  first. A call of the vector store returns its outcome and the persist directory as it
  leaves it; a raised exception is the text \<^verbatim>\<open>str(e)\<close>. \<open>Chroma\<close> is \<open>None\<close> when none
  of the imports of lines 19-31 succeeded.
\<close>

record library =
  embeddings :: providers
  Chroma :: "(EmbeddingAdapter \<Rightarrow> world \<Rightarrow> (string + handle) \<times> dir) option"
  add_texts :: "world \<Rightarrow> handle \<Rightarrow> string list \<Rightarrow> json list \<Rightarrow> string option \<times> dir"
  persist :: "world \<Rightarrow> handle \<Rightarrow> dir"
  similarity_search :: "world \<Rightarrow> handle \<Rightarrow> string \<Rightarrow> int \<Rightarrow> (string + document list) \<times> dir"
  rmtree_raises :: "world \<Rightarrow> bool"
  mkdir_raises :: "world \<Rightarrow> bool"

definition record_call :: "event \<Rightarrow> world \<Rightarrow> world" where
  "record_call e w = w\<lparr>calls := calls w @ [e]\<rparr>"

section \<open>The vector store manager\<close>

text \<open>\<^verbatim>\<open>p.mkdir(parents=True, exist_ok=True)\<close>, line 136, inside the handler of line 138.\<close>

definition mkdir :: "library \<Rightarrow> world \<Rightarrow> world" where
  "mkdir lib w =
     (if mkdir_raises lib w then record_call Mkdir w
      else (record_call Mkdir w)\<lparr>persist_dir :=
              (case persist_dir w of None \<Rightarrow> Some [] | Some entries \<Rightarrow> Some entries)\<rparr>)"

text \<open>
  \<^verbatim>\<open>_reinit_chroma_dir\<close>, lines 128-139. An exception of \<^verbatim>\<open>rmtree\<close> or \<^verbatim>\<open>mkdir\<close> is
  logged and swallowed; after a failed \<^verbatim>\<open>rmtree\<close> the directory is not recreated.
\<close>

definition reinit_chroma_dir :: "library \<Rightarrow> world \<Rightarrow> world" where
  "reinit_chroma_dir lib w =
     (if persist_dir w \<noteq> None
      then (if rmtree_raises lib w then record_call Rmtree w
            else mkdir lib ((record_call Rmtree w)\<lparr>persist_dir := None\<rparr>))
      else mkdir lib w)"

text \<open>The constructor call \<^verbatim>\<open>Chroma(collection_name=..., ...)\<close> of lines 152 and 164.\<close>

definition chroma_call ::
  "(EmbeddingAdapter \<Rightarrow> world \<Rightarrow> (string + handle) \<times> dir) \<Rightarrow> EmbeddingAdapter \<Rightarrow> world
     \<Rightarrow> (string + handle) \<times> world" where
  "chroma_call ctor embedding_obj w =
     (case ctor embedding_obj w of
        (r, d) \<Rightarrow> (r, (record_call (Chroma_call (persist_dir w)) w)\<lparr>persist_dir := d\<rparr>))"

text \<open>The test of lines 160-161 on the message of a failed constructor call.\<close>

definition open_mismatch :: "string \<Rightarrow> bool" where
  "open_mismatch e =
     (let msg = lower e
      in contains ''dimension'' msg \<or> contains ''embedding'' msg \<or> contains ''mismatch'' msg)"

text \<open>\<^verbatim>\<open>get_chroma_db\<close>, lines 141-172: the handle, if any, and the embedding function.\<close>

definition get_chroma_db :: "library \<Rightarrow> world \<Rightarrow> (handle option \<times> embedding_fn) \<times> world" where
  "get_chroma_db lib w =
     (let embedding_fn = get_embedding_function (embeddings lib);
          embedding_obj = EmbeddingAdapter embedding_fn
      in case Chroma lib of
           None \<Rightarrow> ((None, embedding_fn), w)
         | Some ctor \<Rightarrow>
             (case chroma_call ctor embedding_obj w of
                (Inr db, w1) \<Rightarrow> ((Some db, embedding_fn), w1)
              | (Inl e, w1) \<Rightarrow>
                  if open_mismatch e
                  then (let w2 = reinit_chroma_dir lib w1
                        in case chroma_call ctor embedding_obj w2 of
                             (Inr db, w3) \<Rightarrow> ((Some db, embedding_fn), w3)
                           | (Inl e2, w3) \<Rightarrow> ((None, embedding_fn), w3))
                  else ((None, embedding_fn), w1)))"

section \<open>The fallback store\<close>

text \<open>Lines 211-216: the stored value, or the empty list when there is none to load.\<close>

definition load_items :: "store_file \<Rightarrow> json" where
  "load_items f = (case f of NoFile \<Rightarrow> JArr [] | Garbage \<Rightarrow> JArr [] | Json v \<Rightarrow> v)"

text \<open>Line 222: \<^verbatim>\<open>metadatas[i] if metadatas and i < len(metadatas) else {}\<close>.\<close>

definition metadata_at :: "json list option \<Rightarrow> nat \<Rightarrow> json" where
  "metadata_at metadatas i =
     (case metadatas of
        None \<Rightarrow> JObj []
      | Some ms \<Rightarrow> if ms \<noteq> [] \<and> i < length ms then ms ! i else JObj [])"

definition new_record :: "nat \<Rightarrow> string \<Rightarrow> json \<Rightarrow> vector \<Rightarrow> json" where
  "new_record n t m v =
     JObj [(''id'', JStr (''doc-'' @ str_nat n)), (''text'', JStr t), (''metadata'', m),
           (''embedding'', JArr (map JNum v))]"

text \<open>
  The loop of lines 218-224, from index \<open>i\<close> on. \<^verbatim>\<open>items.append\<close> exists only on a
  list, and \<^verbatim>\<open>embs[i]\<close> raises when the embedding function returned too few vectors.
\<close>

fun append_items :: "json list option \<Rightarrow> vector list \<Rightarrow> nat \<Rightarrow> string list \<Rightarrow> json \<Rightarrow> error + json" where
  "append_items metadatas embs i [] items = Inr items"
| "append_items metadatas embs i (t # ts) items =
     (case items of
        JArr xs \<Rightarrow>
          (case index embs i of
             Inl e \<Rightarrow> Inl e
           | Inr v \<Rightarrow>
               append_items metadatas embs (Suc i) ts
                 (JArr (xs @ [new_record (length xs + 1) t (metadata_at metadatas i) v])))
      | _ \<Rightarrow> Inl AttributeError)"

text \<open>Lines 210-226, the fallback part of \<^verbatim>\<open>add_documents_to_chroma\<close>.\<close>

definition write_fallback ::
  "embedding_fn \<Rightarrow> string list \<Rightarrow> json list option \<Rightarrow> world \<Rightarrow> (error + unit) \<times> world" where
  "write_fallback embedding_fn texts metadatas w =
     (let items = load_items (fallback_store w);
          embs = embedding_fn texts
      in case append_items metadatas embs 0 texts items of
           Inl e \<Rightarrow> (Inl e, w)
         | Inr items' \<Rightarrow> (Inr (), w\<lparr>fallback_store := Json items'\<rparr>))"

text \<open>Line 243: \<^verbatim>\<open>d.get("text", "").lower().split()\<close>.\<close>

definition tokens_of :: "json \<Rightarrow> error + string list" where
  "tokens_of d =
     (case d of
        JObj kvs \<Rightarrow>
          (case (case map_of kvs ''text'' of None \<Rightarrow> JStr [] | Some v \<Rightarrow> v) of
             JStr s \<Rightarrow> Inr (split (lower s))
           | _ \<Rightarrow> Inl AttributeError)
      | _ \<Rightarrow> Inl AttributeError)"

text \<open>The loop of lines 242-244.\<close>

fun score_all :: "string set \<Rightarrow> json list \<Rightarrow> error + (nat \<times> json) list" where
  "score_all qtokens [] = Inr []"
| "score_all qtokens (d # ds) =
     (case tokens_of d of
        Inl e \<Rightarrow> Inl e
      | Inr ts \<Rightarrow>
          (case score_all qtokens ds of
             Inl e \<Rightarrow> Inl e
           | Inr scored \<Rightarrow> Inr ((card (qtokens \<inter> set ts), d) # scored)))"

text \<open>What \<^verbatim>\<open>for d in data\<close> visits.\<close>

definition iter :: "json \<Rightarrow> error + json list" where
  "iter data =
     (case data of
        JArr xs \<Rightarrow> Inr xs
      | JObj kvs \<Rightarrow> Inr (map (\<lambda>kv. JStr (fst kv)) kvs)
      | JStr s \<Rightarrow> Inr (map (\<lambda>c. JStr [c]) s)
      | _ \<Rightarrow> Inl TypeError)"

text \<open>
  Lines 236-246, the fallback part of \<^verbatim>\<open>search_chroma\<close>. \<^verbatim>\<open>list.sort\<close> is stable, and
  with \<^verbatim>\<open>reverse=True\<close> elements of equal key keep their order: it is the stable sort by
  the negated key.
\<close>

definition search_fallback :: "string \<Rightarrow> int \<Rightarrow> store_file \<Rightarrow> error + json list" where
  "search_fallback query k f =
     (case f of
        NoFile \<Rightarrow> Inr []
      | Garbage \<Rightarrow> Inl JSONDecodeError
      | Json data \<Rightarrow>
          (let qtokens = set (split (lower query))
           in case iter data of
                Inl e \<Rightarrow> Inl e
              | Inr ds \<Rightarrow>
                  (case score_all qtokens ds of
                     Inl e \<Rightarrow> Inl e
                   | Inr scored \<Rightarrow>
                       Inr (map snd (slice_to (sort_key (\<lambda>x. - int (fst x)) scored) k)))))"

section \<open>Ingestion and retrieval\<close>

text \<open>\<^verbatim>\<open>metadatas or [{} for _ in texts]\<close>, lines 182 and 198.\<close>

definition metadatas_or_default :: "json list option \<Rightarrow> string list \<Rightarrow> json list" where
  "metadatas_or_default metadatas texts =
     (case metadatas of
        None \<Rightarrow> map (\<lambda>_. JObj []) texts
      | Some ms \<Rightarrow> if ms \<noteq> [] then ms else map (\<lambda>_. JObj []) texts)"

definition add_call ::
  "library \<Rightarrow> handle \<Rightarrow> string list \<Rightarrow> json list \<Rightarrow> world \<Rightarrow> string option \<times> world" where
  "add_call lib db texts ms w =
     (case add_texts lib w db texts ms of
        (r, d) \<Rightarrow> (r, (record_call (Add_texts db texts ms) w)\<lparr>persist_dir := d\<rparr>))"

text \<open>\<^verbatim>\<open>db.persist()\<close> under \<^verbatim>\<open>except Exception: pass\<close>: whether it raises changes nothing.\<close>

definition persist_call :: "library \<Rightarrow> handle \<Rightarrow> world \<Rightarrow> world" where
  "persist_call lib db w = (record_call (Persist db) w)\<lparr>persist_dir := persist lib w db\<rparr>"

text \<open>The test of lines 191-192 on the message of a failed \<^verbatim>\<open>add_texts\<close>.\<close>

definition add_mismatch :: "string \<Rightarrow> bool" where
  "add_mismatch e =
     (let msg = lower e
      in contains ''dimension'' msg \<or> contains ''mismatch'' msg \<or> contains ''shape'' msg)"

text \<open>\<^verbatim>\<open>add_documents_to_chroma\<close>, lines 174-226.\<close>

definition add_documents_to_chroma ::
  "library \<Rightarrow> string list \<Rightarrow> json list option \<Rightarrow> world \<Rightarrow> (error + unit) \<times> world" where
  "add_documents_to_chroma lib texts metadatas w =
     (case get_chroma_db lib w of
        ((None, embedding_fn), w1) \<Rightarrow> write_fallback embedding_fn texts metadatas w1
      | ((Some db, embedding_fn), w1) \<Rightarrow>
          (case add_call lib db texts (metadatas_or_default metadatas texts) w1 of
             (None, w2) \<Rightarrow> (Inr (), persist_call lib db w2)
           | (Some e, w2) \<Rightarrow>
               if add_mismatch e
               then (let w3 = reinit_chroma_dir lib w2
                     in case get_chroma_db lib w3 of
                          ((None, _), w4) \<Rightarrow> write_fallback embedding_fn texts metadatas w4
                        | ((Some db2, _), w4) \<Rightarrow>
                            (case add_call lib db2 texts (metadatas_or_default metadatas texts) w4 of
                               (None, w5) \<Rightarrow> (Inr (), persist_call lib db2 w5)
                             | (Some e2, w5) \<Rightarrow> write_fallback embedding_fn texts metadatas w5))
               else write_fallback embedding_fn texts metadatas w2))"

text \<open>What \<^verbatim>\<open>search_chroma\<close> returns: the store's documents, or records of the fallback file.\<close>

datatype hits = Documents "document list" | Records "json list"

definition search_call ::
  "library \<Rightarrow> handle \<Rightarrow> string \<Rightarrow> int \<Rightarrow> world \<Rightarrow> (string + document list) \<times> world" where
  "search_call lib db query k w =
     (case similarity_search lib w db query k of
        (r, d) \<Rightarrow> (r, (record_call (Similarity_search db query k) w)\<lparr>persist_dir := d\<rparr>))"

definition records_of :: "error + json list \<Rightarrow> error + hits" where
  "records_of r = (case r of Inl e \<Rightarrow> Inl e | Inr ds \<Rightarrow> Inr (Records ds))"

text \<open>\<^verbatim>\<open>search_chroma\<close>, lines 228-246.\<close>

definition search_chroma :: "library \<Rightarrow> string \<Rightarrow> int \<Rightarrow> world \<Rightarrow> (error + hits) \<times> world" where
  "search_chroma lib query k w =
     (case get_chroma_db lib w of
        ((None, embedding_fn), w1) \<Rightarrow>
          (records_of (search_fallback query k (fallback_store w1)), w1)
      | ((Some db, embedding_fn), w1) \<Rightarrow>
          (case search_call lib db query k w1 of
             (Inr docs, w2) \<Rightarrow> (Inr (Documents docs), w2)
           | (Inl e, w2) \<Rightarrow> (records_of (search_fallback query k (fallback_store w2)), w2)))"

section \<open>Notions of the specification\<close>

text \<open>
  The stub's window: the input cut or padded with NUL to 32 characters, and the value of
  one character.
\<close>

definition window32 :: "string \<Rightarrow> string" where
  "window32 s = take 32 (s @ replicate (32 - length s) (CHR 0x00))"

definition stub_component :: "char \<Rightarrow> rat" where
  "stub_component c = rat_of_nat (of_char c mod 97) / 97"

text \<open>The records a fallback file holds, and a field of a record.\<close>

definition records_in :: "store_file \<Rightarrow> json list" where
  "records_in f = (case f of Json (JArr xs) \<Rightarrow> xs | _ \<Rightarrow> [])"

definition field :: "string \<Rightarrow> json \<Rightarrow> json option" where
  "field k d = (case d of JObj kvs \<Rightarrow> map_of kvs k | _ \<Rightarrow> None)"

text \<open>The metadata a text at index \<open>i\<close> is to receive.\<close>

definition metadata_for :: "json list option \<Rightarrow> nat \<Rightarrow> json" where
  "metadata_for metadatas i =
     (case metadatas of
        None \<Rightarrow> JObj []
      | Some ms \<Rightarrow> if i < length ms then ms ! i else JObj [])"

text \<open>
  A stored record the lexical search can read: an object whose text, if it has one, is a
  string. Its token overlap with a query is the number of tokens they share.
\<close>

definition searchable :: "json \<Rightarrow> bool" where
  "searchable d =
     (case d of
        JObj kvs \<Rightarrow>
          (case map_of kvs ''text'' of None \<Rightarrow> True | Some (JStr s) \<Rightarrow> True | Some _ \<Rightarrow> False)
      | _ \<Rightarrow> False)"

definition text_of :: "json \<Rightarrow> string" where
  "text_of d = (case field ''text'' d of Some (JStr s) \<Rightarrow> s | _ \<Rightarrow> [])"

definition token_set :: "string \<Rightarrow> string set" where
  "token_set s = set (split (lower s))"

definition overlap :: "string \<Rightarrow> json \<Rightarrow> nat" where
  "overlap query d = card (token_set query \<inter> token_set (text_of d))"

text \<open>The \<^verbatim>\<open>add_texts\<close> calls of a history.\<close>

fun is_add :: "event \<Rightarrow> bool" where
  "is_add (Add_texts db texts ms) = True"
| "is_add _ = False"

section \<open>Example libraries and worlds\<close>

definition no_providers :: providers where
  "no_providers = \<lparr>groq = None, hugging_face = None, sentence_transformer = None\<rparr>"

text \<open>A vector store that opens, and whose every \<^verbatim>\<open>add_texts\<close> raises the given message.\<close>

definition failing_store :: "string \<Rightarrow> library" where
  "failing_store msg =
     \<lparr>embeddings = no_providers,
      Chroma = Some (\<lambda>obj w. (Inr 0, Some [''chroma.sqlite3''])),
      add_texts = (\<lambda>w db ts ms. (Some msg, persist_dir w)),
      persist = (\<lambda>w db. persist_dir w),
      similarity_search = (\<lambda>w db q k. (Inr [], persist_dir w)),
      rmtree_raises = (\<lambda>w. False),
      mkdir_raises = (\<lambda>w. False)\<rparr>"

text \<open>
  A vector store whose constructor raises the given message on a directory that has
  entries and opens on any other, and whose \<^verbatim>\<open>add_texts\<close> raises a dimension error until
  the directory has been removed once.
\<close>

definition stale_store :: "string \<Rightarrow> library" where
  "stale_store msg =
     \<lparr>embeddings = no_providers,
      Chroma = Some (\<lambda>obj w. case persist_dir w of
                                Some (x # xs) \<Rightarrow> (Inl msg, persist_dir w)
                              | _ \<Rightarrow> (Inr 0, Some [])),
      add_texts = (\<lambda>w db ts ms. if Rmtree \<in> set (calls w) then (None, persist_dir w)
                                   else (Some ''Collection expecting embedding with dimension of 384, got 32'',
                                         Some [''chroma.sqlite3''])),
      persist = (\<lambda>w db. persist_dir w),
      similarity_search = (\<lambda>w db q k. (Inr [], persist_dir w)),
      rmtree_raises = (\<lambda>w. False),
      mkdir_raises = (\<lambda>w. False)\<rparr>"

definition fresh_world :: world where
  "fresh_world = \<lparr>persist_dir = None, fallback_store = NoFile, calls = []\<rparr>"

definition used_world :: world where
  "used_world = \<lparr>persist_dir = Some [''chroma.sqlite3''], fallback_store = NoFile, calls = []\<rparr>"

section \<open>Embedding functions\<close>

lemma vec_window: "vec s = map stub_component (window32 s)"
proof (cases "length s \<le> 32")
  case True
  then show ?thesis
    by (simp add: vec_def ljust_def window32_def stub_component_def)
next
  case False
  then have "take 32 (take 256 s) = take 32 s"
    by (simp add: min_def)
  with False show ?thesis
    by (simp add: vec_def ljust_def window32_def stub_component_def)
qed

lemma length_window32: "length (window32 s) = 32"
  by (simp add: window32_def)

text \<open>
  Claim C8. The stub returns one vector per input string, each of 32 components, the
  component at position \<open>i\<close> being \<open>ord(c) mod 97 / 97\<close> for the character \<open>c\<close> at
  position \<open>i\<close> of the input cut or padded with NUL to 32 characters. The vector of a string
  depends on that string alone: embedding a list is embedding each of its strings alone.
\<close>

theorem stub_embedding:
  "fake_embed texts = map (\<lambda>s. map stub_component (window32 s)) texts
   \<and> length (fake_embed texts) = length texts
   \<and> map length (fake_embed texts) = replicate (length texts) 32
   \<and> fake_embed texts = concat (map (\<lambda>s. fake_embed [s]) texts)"
proof -
  have a: "fake_embed texts = map (\<lambda>s. map stub_component (window32 s)) texts"
    by (simp add: fake_embed_def vec_window)
  have b: "map length (fake_embed texts) = replicate (length texts) 32"
    by (simp add: a length_window32 comp_def map_replicate_const)
  have c: "fake_embed texts = concat (map (\<lambda>s. fake_embed [s]) texts)"
    by (induction texts) (simp_all add: fake_embed_def)
  from a b c show ?thesis by simp
qed

text \<open>
  Claim C9. For every wrapped function and every text, \<^verbatim>\<open>embed_query(text)\<close> is
  \<^verbatim>\<open>embed_documents([text])[0]\<close>, the \<^verbatim>\<open>IndexError\<close> of an empty answer included, and the
  adapter's batch methods are the wrapped function itself.
\<close>

theorem adapter_single_query:
  "embed_query (EmbeddingAdapter f) text = index (embed_documents (EmbeddingAdapter f) [text]) 0
   \<and> embed_documents (EmbeddingAdapter f) texts = f texts
   \<and> embed (EmbeddingAdapter f) texts = f texts"
  by (simp add: embed_query_def embed_documents_def embed_def)

section \<open>Opening the vector store\<close>

text \<open>
  Claim C7. Whatever the libraries do, the second component of what \<^verbatim>\<open>get_chroma_db\<close>
  returns is the resolved embedding function, with or without a store handle.
\<close>

theorem open_returns_embedding_function:
  "snd (fst (get_chroma_db lib w)) = get_embedding_function (embeddings lib)"
  by (simp add: get_chroma_db_def Let_def split: option.splits prod.splits sum.splits)

section \<open>The fallback store appends\<close>

text \<open>The loop on a list adds one record per text, numbered after the records before it.\<close>

lemma append_items_closed:
  "i + length ts \<le> length embs \<Longrightarrow>
   append_items md embs i ts (JArr xs) =
     Inr (JArr (xs @ map (\<lambda>j. new_record (length xs + j + 1) (ts ! j) (metadata_at md (i + j))
                              (embs ! (i + j))) [0..<length ts]))"
proof (induction ts arbitrary: i xs)
  case Nil
  then show ?case by simp
next
  case (Cons t ts)
  have shift: "[0..<Suc (length ts)] = 0 # map Suc [0..<length ts]"
    by (simp add: upt_conv_Cons map_Suc_upt del: upt_Suc)
  from Cons.prems have "Suc i + length ts \<le> length embs" and "i < length embs"
    by simp_all
  with Cons.IH [of "Suc i"] show ?case
    by (simp add: index_def shift comp_def del: upt_Suc)
qed

lemma write_fallback_closed:
  assumes "load_items (fallback_store w) = JArr items"
      and "length texts \<le> length (embedding_fn texts)"
  shows "write_fallback embedding_fn texts metadatas w =
           (Inr (), w\<lparr>fallback_store := Json (JArr (items @
              map (\<lambda>j. new_record (length items + j + 1) (texts ! j) (metadata_at metadatas j)
                          (embedding_fn texts ! j)) [0..<length texts]))\<rparr>)"
  using assms append_items_closed [of 0 texts "embedding_fn texts" metadatas items]
  by (simp add: write_fallback_def)

lemma field_new_record:
  "field ''id'' (new_record n t m v) = Some (JStr (''doc-'' @ str_nat n))"
  "field ''text'' (new_record n t m v) = Some (JStr t)"
  "field ''metadata'' (new_record n t m v) = Some m"
  "field ''embedding'' (new_record n t m v) = Some (JArr (map JNum v))"
  by (simp_all add: field_def new_record_def)

lemma metadata_at_for: "metadata_at metadatas i = metadata_for metadatas i"
  by (auto simp: metadata_at_def metadata_for_def split: option.splits)

text \<open>Different numbers have different decimal digits, so different ids.\<close>

lemma length_str_nat: "0 < length (str_nat n)"
  by (subst str_nat.simps) simp

lemma digit_inj:
  assumes "a < 10" and "b < 10" and "digit a = digit b"
  shows "a = b"
proof -
  from assms(3) have "(of_char (digit a) :: nat) = of_char (digit b)"
    by simp
  then have "(48 + a) mod 256 = (48 + b) mod 256"
    by (simp add: digit_def)
  with assms(1,2) show ?thesis
    by simp
qed

lemma str_nat_inj: "str_nat n = str_nat m \<Longrightarrow> n = m"
proof (induction n arbitrary: m rule: str_nat.induct)
  case (1 n)
  show ?case
  proof (cases "n < 10")
    case small: True
    show ?thesis
    proof (cases "m < 10")
      case True
      with small "1.prems" show ?thesis
        by (subst (asm) str_nat.simps, subst (asm) (2) str_nat.simps) (simp add: digit_inj)
    next
      case False
      with small "1.prems" length_str_nat [of "m div 10"] show ?thesis
        by (subst (asm) str_nat.simps, subst (asm) (2) str_nat.simps) auto
    qed
  next
    case big: False
    show ?thesis
    proof (cases "m < 10")
      case True
      with big "1.prems" length_str_nat [of "n div 10"] show ?thesis
        by (subst (asm) str_nat.simps, subst (asm) (2) str_nat.simps) auto
    next
      case False
      with big "1.prems" have eq: "str_nat (n div 10) = str_nat (m div 10)"
          and d: "digit (n mod 10) = digit (m mod 10)"
        by (subst (asm) str_nat.simps, subst (asm) (2) str_nat.simps, simp)+
      from "1.IH" [OF big eq] have "n div 10 = m div 10" .
      moreover from d have "n mod 10 = m mod 10"
        by (intro digit_inj) simp_all
      ultimately show ?thesis
        by (metis div_mult_mod_eq)
    qed
  qed
qed

lemma doc_ids_distinct: "distinct (map (\<lambda>n. Some (JStr (''doc-'' @ str_nat n))) [a..<b])"
  by (simp add: distinct_map inj_on_def str_nat_inj)

lemma ids_shift:
  "map (\<lambda>j. f (N + j + 1)) [0..<n] = map f [N + 1..<N + n + 1]"
proof -
  have "[N + 1..<N + n + 1] = map (\<lambda>j. N + j + 1) [0..<n]"
    by (induction n) simp_all
  then show ?thesis
    by (simp add: comp_def)
qed

text \<open>
  Claim C1. Appending to a fallback file from which \<open>N\<close> records are loaded (an absent
  file and a file that does not parse load as none) succeeds whenever the embedding
  function returns a vector for every text. The file then holds the old records followed
  by one new record per text, in input order, with the ids \<open>doc-(N+1)\<close> to \<open>doc-(N+n)\<close>,
  all different; the old records are untouched. A second append adds its own records
  behind those, so that the file holds \<open>N + n + m\<close> records.
\<close>

theorem fallback_append_monotone:
  assumes "load_items (fallback_store w) = JArr items"
      and "length texts \<le> length (embedding_fn texts)"
  shows "\<exists>new. write_fallback embedding_fn texts metadatas w
                 = (Inr (), w\<lparr>fallback_store := Json (JArr (items @ new))\<rparr>)
           \<and> length new = length texts
           \<and> map (field ''id'') new
               = map (\<lambda>n. Some (JStr (''doc-'' @ str_nat n)))
                   [length items + 1..<length items + length texts + 1]
           \<and> map (field ''text'') new = map (\<lambda>t. Some (JStr t)) texts
           \<and> distinct (map (field ''id'') new)
           \<and> (length later \<le> length (embedding_fn later) \<longrightarrow>
                (\<exists>new'. write_fallback embedding_fn later later_metadatas
                           (snd (write_fallback embedding_fn texts metadatas w))
                         = (Inr (), w\<lparr>fallback_store := Json (JArr (items @ new @ new'))\<rparr>)
                   \<and> length new' = length later))"
proof -
  define new where
    "new = map (\<lambda>j. new_record (length items + j + 1) (texts ! j) (metadata_at metadatas j)
                       (embedding_fn texts ! j)) [0..<length texts]"
  have w: "write_fallback embedding_fn texts metadatas w
             = (Inr (), w\<lparr>fallback_store := Json (JArr (items @ new))\<rparr>)"
    unfolding new_def using assms by (rule write_fallback_closed [where embedding_fn = embedding_fn])
  have len: "length new = length texts"
    by (simp add: new_def)
  have ids: "map (field ''id'') new
               = map (\<lambda>n. Some (JStr (''doc-'' @ str_nat n)))
                   [length items + 1..<length items + length texts + 1]"
    unfolding new_def
    using ids_shift [of "\<lambda>n. Some (JStr (''doc-'' @ str_nat n))" "length items" "length texts"]
    by (simp add: comp_def field_new_record)
  have same_texts: "map (field ''text'') new = map (\<lambda>t. Some (JStr t)) texts"
    unfolding new_def
    by (rule nth_equalityI) (simp_all add: field_new_record)
  have dist: "distinct (map (field ''id'') new)"
    unfolding ids by (rule doc_ids_distinct)
  have again: "\<exists>new'. write_fallback embedding_fn later later_metadatas
                           (snd (write_fallback embedding_fn texts metadatas w))
                         = (Inr (), w\<lparr>fallback_store := Json (JArr (items @ new @ new'))\<rparr>)
                   \<and> length new' = length later"
    if later: "length later \<le> length (embedding_fn later)"
  proof -
    let ?w1 = "w\<lparr>fallback_store := Json (JArr (items @ new))\<rparr>"
    have "load_items (fallback_store ?w1) = JArr (items @ new)"
      by (simp add: load_items_def)
    from write_fallback_closed [where embedding_fn = embedding_fn, OF this later, of later_metadatas]
    show ?thesis
      by (auto simp: w)
  qed
  from w len ids same_texts dist again show ?thesis
    by blast
qed

theorem fallback_append_monotone_witness:
  "load_items (fallback_store \<lparr>persist_dir = None, fallback_store = NoFile, calls = []\<rparr>) = JArr []
   \<and> length [''a'', ''b''] \<le> length (fake_embed [''a'', ''b''])
   \<and> length [''c''] \<le> length (fake_embed [''c''])
   \<and> map (field ''id'') (records_in (fallback_store (snd (write_fallback fake_embed [''a'', ''b''] None
          \<lparr>persist_dir = None, fallback_store = NoFile, calls = []\<rparr>))))
       = [Some (JStr ''doc-1''), Some (JStr ''doc-2'')]
   \<and> length (records_in (fallback_store (snd (write_fallback fake_embed [''c''] None
          (snd (write_fallback fake_embed [''a'', ''b''] None
             \<lparr>persist_dir = None, fallback_store = NoFile, calls = []\<rparr>)))))) = 3"
proof -
  let ?w = "\<lparr>persist_dir = None, fallback_store = NoFile, calls = []\<rparr>"
  have h1: "load_items (fallback_store ?w) = JArr []"
    by (simp add: load_items_def)
  have h2: "length [''a'', ''b''] \<le> length (fake_embed [''a'', ''b''])"
    by (simp add: fake_embed_def)
  have h3: "length [''c''] \<le> length (fake_embed [''c''])"
    by (simp add: fake_embed_def)
  from fallback_append_monotone [where embedding_fn = fake_embed and texts = "[''a'', ''b'']"
      and later = "[''c'']" and metadatas = None and later_metadatas = None, OF h1 h2] h3
  obtain new new' where
      a: "write_fallback fake_embed [''a'', ''b''] None ?w
            = (Inr (), ?w\<lparr>fallback_store := Json (JArr ([] @ new))\<rparr>)"
    and b: "length new = length [''a'', ''b'']"
    and c: "map (field ''id'') new
              = map (\<lambda>n. Some (JStr (''doc-'' @ str_nat n)))
                  [length ([]::json list) + 1..<length ([]::json list) + length [''a'', ''b''] + 1]"
    and d: "write_fallback fake_embed [''c''] None (snd (write_fallback fake_embed [''a'', ''b''] None ?w))
              = (Inr (), ?w\<lparr>fallback_store := Json (JArr ([] @ new @ new'))\<rparr>)"
    and e: "length new' = length [''c'']"
    by blast
  have "[Suc 0..<3] = [1, 2]"
    by (simp add: upt_rec)
  with c have ids: "map (field ''id'') new = [Some (JStr ''doc-1''), Some (JStr ''doc-2'')]"
    by (simp add: str_nat.simps digit_def char_of_def bit_Suc_0_iff)
  from a ids b d e h1 h2 h3 show ?thesis
    by (simp add: records_in_def)
qed

text \<open>
  Claim C10. Whatever the metadata argument is, absent, empty, shorter than the texts or
  not, the append succeeds under the same conditions and adds one record per text; the
  record of the text at index \<open>i\<close> carries \<open>metadatas[i]\<close> when there is one and the empty
  mapping otherwise.
\<close>

theorem fallback_append_metadata:
  assumes "load_items (fallback_store w) = JArr items"
      and "length texts \<le> length (embedding_fn texts)"
  shows "\<exists>new. write_fallback embedding_fn texts metadatas w
                 = (Inr (), w\<lparr>fallback_store := Json (JArr (items @ new))\<rparr>)
           \<and> length new = length texts
           \<and> map (field ''metadata'') new
               = map (\<lambda>i. Some (metadata_for metadatas i)) [0..<length texts]"
proof -
  define new where
    "new = map (\<lambda>j. new_record (length items + j + 1) (texts ! j) (metadata_at metadatas j)
                       (embedding_fn texts ! j)) [0..<length texts]"
  have w: "write_fallback embedding_fn texts metadatas w
             = (Inr (), w\<lparr>fallback_store := Json (JArr (items @ new))\<rparr>)"
    unfolding new_def using assms by (rule write_fallback_closed [where embedding_fn = embedding_fn])
  have len: "length new = length texts"
    by (simp add: new_def)
  have "map (field ''metadata'') new
          = map (\<lambda>i. Some (metadata_for metadatas i)) [0..<length texts]"
    unfolding new_def by (simp add: comp_def field_new_record metadata_at_for)
  with w len show ?thesis
    by blast
qed


theorem fallback_append_metadata_witness:
  "load_items (fallback_store \<lparr>persist_dir = None, fallback_store = Garbage, calls = []\<rparr>) = JArr []
   \<and> length [''a'', ''b''] \<le> length (fake_embed [''a'', ''b''])
   \<and> map (field ''metadata'') (records_in (fallback_store (snd (write_fallback fake_embed [''a'', ''b'']
          (Some [JObj [(''source'', JStr ''x'')]])
          \<lparr>persist_dir = None, fallback_store = Garbage, calls = []\<rparr>))))
       = [Some (JObj [(''source'', JStr ''x'')]), Some (JObj [])]"
proof -
  let ?w = "\<lparr>persist_dir = None, fallback_store = Garbage, calls = []\<rparr>"
  let ?ms = "Some [JObj [(''source'', JStr ''x'')]]"
  have h1: "load_items (fallback_store ?w) = JArr []"
    by (simp add: load_items_def)
  have h2: "length [''a'', ''b''] \<le> length (fake_embed [''a'', ''b''])"
    by (simp add: fake_embed_def)
  from fallback_append_metadata [where embedding_fn = fake_embed and texts = "[''a'', ''b'']"
      and metadatas = ?ms, OF h1 h2]
  obtain new where
      a: "write_fallback fake_embed [''a'', ''b''] ?ms ?w
            = (Inr (), ?w\<lparr>fallback_store := Json (JArr ([] @ new))\<rparr>)"
    and c: "map (field ''metadata'') new
              = map (\<lambda>i. Some (metadata_for ?ms i)) [0..<length [''a'', ''b'']]"
    by blast
  have "[0..<Suc (Suc 0)] = [0, 1]"
    by (simp add: upt_rec)
  with c have "map (field ''metadata'') new = [Some (JObj [(''source'', JStr ''x'')]), Some (JObj [])]"
    by (simp add: metadata_for_def)
  with a h1 h2 show ?thesis
    by (simp add: records_in_def)
qed

section \<open>The fallback store searches\<close>

text \<open>On readable records the scoring loop pairs every record with its token overlap.\<close>

lemma tokens_of_searchable:
  "searchable d \<Longrightarrow> tokens_of d = Inr (split (lower (text_of d)))"
  by (auto simp: searchable_def tokens_of_def text_of_def field_def
           split: json.splits option.splits)

lemma score_all_searchable:
  "list_all searchable ds \<Longrightarrow>
   score_all (token_set query) ds = Inr (map (\<lambda>d. (overlap query d, d)) ds)"
  by (induction ds) (simp_all add: tokens_of_searchable overlap_def token_set_def)

text \<open>Sorting the pairs by their first component is sorting the records by their overlap.\<close>

lemma insort_key_pairs:
  "insort_key (\<lambda>x. - int (fst x)) (f d, d) (map (\<lambda>d. (f d, d)) ys)
     = map (\<lambda>d. (f d, d)) (insort_key (\<lambda>d. - int (f d)) d ys)"
  by (induction ys) simp_all

lemma sort_key_pairs:
  "map snd (sort_key (\<lambda>x. - int (fst x)) (map (\<lambda>d. (f d, d)) ds))
     = sort_key (\<lambda>d. - int (f d)) ds"
proof -
  have "sort_key (\<lambda>x. - int (fst x)) (map (\<lambda>d. (f d, d)) ds)
          = map (\<lambda>d. (f d, d)) (sort_key (\<lambda>d. - int (f d)) ds)"
    by (induction ds) (simp_all add: insort_key_pairs)
  then show ?thesis
    by (simp add: comp_def)
qed

lemma search_fallback_sorted:
  assumes "list_all searchable ds"
  shows "search_fallback query k (Json (JArr ds))
           = Inr (slice_to (sort_key (\<lambda>d. - int (overlap query d)) ds) k)"
proof -
  have "map snd (slice_to xs k) = slice_to (map snd xs) k" for xs :: "(nat \<times> json) list"
    by (simp add: slice_to_def take_map)
  with assms show ?thesis
    by (simp add: search_fallback_def iter_def score_all_searchable [unfolded token_set_def]
          sort_key_pairs)
qed

lemma ranking_sorted:
  "sorted_wrt (\<lambda>a b. overlap query b \<le> overlap query a)
     (sort_key (\<lambda>d. - int (overlap query d)) ds)"
proof -
  have "sorted (map (\<lambda>d. - int (overlap query d)) (sort_key (\<lambda>d. - int (overlap query d)) ds))"
    by (rule sorted_sort_key)
  then show ?thesis
    by (simp add: sorted_map)
qed

lemma ranking_stable:
  "filter (\<lambda>d. overlap query d = s) (sort_key (\<lambda>d. - int (overlap query d)) ds)
     = filter (\<lambda>d. overlap query d = s) ds"
  using sort_key_stable [of "\<lambda>d. - int (overlap query d)" "- int s" ds]
  by simp

text \<open>The store written from the two texts of the specification's example, searched.\<close>

lemma search_example:
  "map_sum id (map text_of) (search_fallback ''cat sat'' 3 (fallback_store (snd
      (write_fallback fake_embed [''the cat sat'', ''a dog ran''] None
         \<lparr>persist_dir = None, fallback_store = NoFile, calls = []\<rparr>))))
     = Inr [''the cat sat'', ''a dog ran'']"
  by code_simp

lemma search_example_scores:
  "map (overlap ''cat sat'') (records_in (fallback_store (snd
      (write_fallback fake_embed [''the cat sat'', ''a dog ran''] None
         \<lparr>persist_dir = None, fallback_store = NoFile, calls = []\<rparr>)))) = [2, 0]"
  by code_simp

text \<open>
  Claim C2. On a fallback file holding a list of readable records, the search returns the
  slice \<^verbatim>\<open>[:k]\<close>, which for \<open>k \<ge> 0\<close> is the first \<open>k\<close> elements, of a ranking of the stored
  records: a rearrangement of them in descending order of token overlap with the query,
  the tokens being the sets of lowercased whitespace-separated words, in which records of
  equal overlap keep their stored order. An absent file gives the empty result. For the
  store written from \<^verbatim>\<open>["the cat sat", "a dog ran"]\<close> and the query \<^verbatim>\<open>"cat sat"\<close> the overlaps
  are 2 and 0 and the first result is the record of \<^verbatim>\<open>"the cat sat"\<close>.
\<close>

theorem fallback_search_ranking:
  assumes "list_all searchable ds"
  shows "(\<exists>ranked. search_fallback query k (Json (JArr ds)) = Inr (slice_to ranked k)
            \<and> mset ranked = mset ds
            \<and> sorted_wrt (\<lambda>a b. overlap query b \<le> overlap query a) ranked
            \<and> (\<forall>s. filter (\<lambda>d. overlap query d = s) ranked = filter (\<lambda>d. overlap query d = s) ds)
            \<and> (0 \<le> k \<longrightarrow> slice_to ranked k = take (nat k) ranked))
         \<and> search_fallback query k NoFile = Inr []
         \<and> map_sum id (map text_of) (search_fallback ''cat sat'' 3 (fallback_store (snd
              (write_fallback fake_embed [''the cat sat'', ''a dog ran''] None
                 \<lparr>persist_dir = None, fallback_store = NoFile, calls = []\<rparr>))))
             = Inr [''the cat sat'', ''a dog ran'']
         \<and> map (overlap ''cat sat'') (records_in (fallback_store (snd
              (write_fallback fake_embed [''the cat sat'', ''a dog ran''] None
                 \<lparr>persist_dir = None, fallback_store = NoFile, calls = []\<rparr>)))) = [2, 0]"
proof -
  let ?ranked = "sort_key (\<lambda>d. - int (overlap query d)) ds"
  have "search_fallback query k (Json (JArr ds)) = Inr (slice_to ?ranked k)"
    using assms by (rule search_fallback_sorted)
  moreover have "mset ?ranked = mset ds"
    by simp
  moreover have "0 \<le> k \<longrightarrow> slice_to ?ranked k = take (nat k) ?ranked"
    by (simp add: slice_to_def)
  moreover have "search_fallback query k NoFile = Inr []"
    by (simp add: search_fallback_def)
  ultimately show ?thesis
    using ranking_sorted [of query ds] ranking_stable [of query _ ds]
      search_example search_example_scores
    by blast
qed

text \<open>Four records, two of them with the highest overlap; the earlier one comes first.\<close>

lemma witness_search:
  "search_fallback ''cat sat'' 1
     (Json (JArr [JObj [(''text'', JStr ''a dog ran'')], JObj [(''text'', JStr ''The Cat sat'')],
                  JObj [(''text'', JStr ''cat'')], JObj [(''text'', JStr ''sat on a cat'')]]))
     = Inr [JObj [(''text'', JStr ''The Cat sat'')]]"
  by code_simp

theorem fallback_search_ranking_witness:
  "list_all searchable
     [JObj [(''text'', JStr ''a dog ran'')], JObj [(''text'', JStr ''The Cat sat'')],
      JObj [(''text'', JStr ''cat'')], JObj [(''text'', JStr ''sat on a cat'')]]
   \<and> (\<exists>ranked. Inr [JObj [(''text'', JStr ''The Cat sat'')]] = (Inr (slice_to ranked 1) :: error + json list)
         \<and> mset ranked = mset [JObj [(''text'', JStr ''a dog ran'')], JObj [(''text'', JStr ''The Cat sat'')],
                                JObj [(''text'', JStr ''cat'')], JObj [(''text'', JStr ''sat on a cat'')]]
         \<and> sorted_wrt (\<lambda>a b. overlap ''cat sat'' b \<le> overlap ''cat sat'' a) ranked
         \<and> slice_to ranked 1 = take 1 ranked)"
proof -
  let ?ds = "[JObj [(''text'', JStr ''a dog ran'')], JObj [(''text'', JStr ''The Cat sat'')],
              JObj [(''text'', JStr ''cat'')], JObj [(''text'', JStr ''sat on a cat'')]]"
  have h: "list_all searchable ?ds"
    by (simp add: searchable_def)
  from fallback_search_ranking [OF h, of "''cat sat''" 1]
  obtain ranked where
      r: "search_fallback ''cat sat'' 1 (Json (JArr ?ds)) = Inr (slice_to ranked 1)"
    and p: "mset ranked = mset ?ds"
    and s: "sorted_wrt (\<lambda>a b. overlap ''cat sat'' b \<le> overlap ''cat sat'' a) ranked"
    and t: "slice_to ranked 1 = take (nat 1) ranked"
    by auto
  from r have "Inr [JObj [(''text'', JStr ''The Cat sat'')]] = (Inr (slice_to ranked 1) :: error + json list)"
    by (simp only: witness_search)
  with p s t have "\<exists>ranked. Inr [JObj [(''text'', JStr ''The Cat sat'')]] = (Inr (slice_to ranked 1) :: error + json list)
         \<and> mset ranked = mset ?ds
         \<and> sorted_wrt (\<lambda>a b. overlap ''cat sat'' b \<le> overlap ''cat sat'' a) ranked
         \<and> slice_to ranked 1 = take 1 ranked"
    by (intro exI [of _ ranked]) simp
  with h show ?thesis
    by (rule conjI)
qed

text \<open>
  Claim C3. The append treats a fallback file that does not parse as an empty store: it
  succeeds and leaves exactly the new records. The search does not: with no vector store
  to answer, \<^verbatim>\<open>search_chroma\<close> on such a file raises the \<^verbatim>\<open>JSONDecodeError\<close> of line 239,
  which no handler catches.
\<close>

theorem corrupt_file_search_raises:
  "search_fallback query k Garbage = Inl JSONDecodeError
   \<and> fst (search_chroma (lib\<lparr>Chroma := None\<rparr>) query k (w\<lparr>fallback_store := Garbage\<rparr>))
       = Inl JSONDecodeError
   \<and> fst (write_fallback fake_embed texts metadatas (w\<lparr>fallback_store := Garbage\<rparr>)) = Inr ()
   \<and> length (records_in (fallback_store (snd
         (write_fallback fake_embed texts metadatas (w\<lparr>fallback_store := Garbage\<rparr>)))))
       = length texts"
proof -
  have a: "search_fallback query k Garbage = Inl JSONDecodeError"
    by (simp add: search_fallback_def)
  have b: "fst (search_chroma (lib\<lparr>Chroma := None\<rparr>) query k (w\<lparr>fallback_store := Garbage\<rparr>))
             = Inl JSONDecodeError"
    by (simp add: search_chroma_def get_chroma_db_def a records_of_def)
  have "load_items (fallback_store (w\<lparr>fallback_store := Garbage\<rparr>)) = JArr []"
    by (simp add: load_items_def)
  moreover have "length texts \<le> length (fake_embed texts)"
    by (simp add: fake_embed_def)
  ultimately have "write_fallback fake_embed texts metadatas (w\<lparr>fallback_store := Garbage\<rparr>)
      = (Inr (), w\<lparr>fallback_store := Garbage\<rparr>\<lparr>fallback_store := Json (JArr ([] @
              map (\<lambda>j. new_record (length ([]::json list) + j + 1) (texts ! j) (metadata_at metadatas j)
                          (fake_embed texts ! j)) [0..<length texts]))\<rparr>)"
    by (rule write_fallback_closed [where embedding_fn = fake_embed])
  then have "fst (write_fallback fake_embed texts metadatas (w\<lparr>fallback_store := Garbage\<rparr>)) = Inr ()"
    and "length (records_in (fallback_store (snd
           (write_fallback fake_embed texts metadatas (w\<lparr>fallback_store := Garbage\<rparr>)))))
         = length texts"
    by (simp_all add: records_in_def)
  with a b show ?thesis
    by simp
qed

section \<open>What the store manager leaves alone\<close>

lemma fallback_store_mkdir: "fallback_store (mkdir lib w) = fallback_store w"
  by (simp add: mkdir_def record_call_def)

lemma fallback_store_reinit: "fallback_store (reinit_chroma_dir lib w) = fallback_store w"
  by (simp add: reinit_chroma_dir_def record_call_def fallback_store_mkdir)

lemma fallback_store_chroma_call:
  "fallback_store (snd (chroma_call ctor obj w)) = fallback_store w"
  by (simp add: chroma_call_def record_call_def split: prod.splits)

lemma fallback_store_get_chroma_db:
  "fallback_store (snd (get_chroma_db lib w)) = fallback_store w"
proof (cases "Chroma lib")
  case None
  then show ?thesis
    by (simp add: get_chroma_db_def)
next
  case (Some ctor)
  let ?obj = "EmbeddingAdapter (get_embedding_function (embeddings lib))"
  obtain r w1 where first: "chroma_call ctor ?obj w = (r, w1)"
    by (cases "chroma_call ctor ?obj w")
  then have w1: "fallback_store w1 = fallback_store w"
    using fallback_store_chroma_call [of ctor ?obj w] by simp
  obtain r2 w3 where retry: "chroma_call ctor ?obj (reinit_chroma_dir lib w1) = (r2, w3)"
    by (cases "chroma_call ctor ?obj (reinit_chroma_dir lib w1)")
  then have w3: "fallback_store w3 = fallback_store w"
    using fallback_store_chroma_call [of ctor ?obj "reinit_chroma_dir lib w1"]
    by (simp add: fallback_store_reinit w1)
  from Some first retry w1 w3 show ?thesis
    by (simp add: get_chroma_db_def Let_def split: sum.splits)
qed

lemma embedding_of_get_chroma_db:
  "snd (fst (get_chroma_db lib w)) = get_embedding_function (embeddings lib)"
  by (simp add: get_chroma_db_def Let_def split: option.splits prod.splits sum.splits)

section \<open>Histories\<close>

lemma calls_mkdir: "calls (mkdir lib w) = calls w @ [Mkdir]"
  by (simp add: mkdir_def record_call_def)

lemma calls_reinit:
  "calls (reinit_chroma_dir lib w) = calls w @ [Rmtree, Mkdir]
   \<or> calls (reinit_chroma_dir lib w) = calls w @ [Rmtree]
   \<or> calls (reinit_chroma_dir lib w) = calls w @ [Mkdir]"
  by (simp add: reinit_chroma_dir_def record_call_def calls_mkdir)

lemma adds_reinit:
  "filter is_add (calls (reinit_chroma_dir lib w)) = filter is_add (calls w)"
  using calls_reinit [of lib w] by auto

lemma calls_chroma_call:
  "calls (snd (chroma_call ctor obj w)) = calls w @ [Chroma_call (persist_dir w)]"
  by (simp add: chroma_call_def record_call_def split: prod.splits)

lemma adds_get_chroma_db:
  "filter is_add (calls (snd (get_chroma_db lib w))) = filter is_add (calls w)"
proof (cases "Chroma lib")
  case None
  then show ?thesis
    by (simp add: get_chroma_db_def)
next
  case (Some ctor)
  let ?obj = "EmbeddingAdapter (get_embedding_function (embeddings lib))"
  obtain r w1 where first: "chroma_call ctor ?obj w = (r, w1)"
    by (cases "chroma_call ctor ?obj w")
  then have w1: "filter is_add (calls w1) = filter is_add (calls w)"
    using calls_chroma_call [of ctor ?obj w] by simp
  obtain r2 w3 where retry: "chroma_call ctor ?obj (reinit_chroma_dir lib w1) = (r2, w3)"
    by (cases "chroma_call ctor ?obj (reinit_chroma_dir lib w1)")
  then have w3: "filter is_add (calls w3) = filter is_add (calls w)"
    using calls_chroma_call [of ctor ?obj "reinit_chroma_dir lib w1"]
    by (simp add: adds_reinit w1)
  from Some first retry w1 w3 show ?thesis
    by (simp add: get_chroma_db_def Let_def split: sum.splits)
qed

lemma calls_add_call:
  "calls (snd (add_call lib db texts ms w)) = calls w @ [Add_texts db texts ms]"
  by (simp add: add_call_def record_call_def split: prod.splits)

lemma calls_persist_call: "calls (persist_call lib db w) = calls w @ [Persist db]"
  by (simp add: persist_call_def record_call_def)

lemma calls_write_fallback: "calls (snd (write_fallback ef texts metadatas w)) = calls w"
  by (simp add: write_fallback_def split: sum.splits)

lemma persist_dir_reinit:
  assumes "\<forall>w. \<not> rmtree_raises lib w \<and> \<not> mkdir_raises lib w"
  shows "persist_dir (reinit_chroma_dir lib w) = Some []"
  using assms by (simp add: reinit_chroma_dir_def mkdir_def record_call_def)


lemma calls_reinit_reliable:
  assumes "\<forall>w. \<not> rmtree_raises lib w \<and> \<not> mkdir_raises lib w"
  shows "calls (reinit_chroma_dir lib w)
           = calls w @ (if persist_dir w \<noteq> None then [Rmtree, Mkdir] else [Mkdir])"
  using assms by (simp add: reinit_chroma_dir_def mkdir_def record_call_def)

section \<open>Ingestion when the vector store fails\<close>

lemma write_fallback_single:
  assumes "load_items (fallback_store w) = JArr items"
      and "ef [t] \<noteq> []"
  shows "write_fallback ef [t] (Some [m]) w
           = (Inr (), w\<lparr>fallback_store :=
                Json (JArr (items @ [new_record (length items + 1) t m (ef [t] ! 0)]))\<rparr>)"
proof -
  from assms(2) have "length [t] \<le> length (ef [t])"
    by (cases "ef [t]") simp_all
  with assms(1) have "write_fallback ef [t] (Some [m]) w =
           (Inr (), w\<lparr>fallback_store := Json (JArr (items @
              map (\<lambda>j. new_record (length items + j + 1) ([t] ! j) (metadata_at (Some [m]) j)
                          (ef [t] ! j)) [0..<length [t]]))\<rparr>)"
    by (rule write_fallback_closed [where embedding_fn = ef])
  then show ?thesis
    by (simp add: metadata_at_def)
qed

text \<open>
  Claim C4, amended. Let every \<^verbatim>\<open>add_texts\<close> call raise a message which, lowered,
  contains none of \<^verbatim>\<open>dimension\<close>, \<^verbatim>\<open>mismatch\<close> and \<^verbatim>\<open>shape\<close>, the substrings that line 192
  tests for; let the fallback file load as a list, and let the embedding function return
  a vector for the text. Then ingesting \<^verbatim>\<open>["hello world"]\<close> with
  the metadata \<^verbatim>\<open>[{"source": "x"}]\<close> does not raise; the fallback file holds one new record
  behind the old ones, with that text and that metadata; and after the store was opened
  the only call made is the one failed \<^verbatim>\<open>add_texts\<close>, if a handle was obtained at all: no
  directory is removed, no store reopened, no add retried.
\<close>

theorem ingest_total_resilience:
  assumes always_fails: "\<forall>w db ts ms. \<exists>e. fst (add_texts lib w db ts ms) = Some e \<and> \<not> add_mismatch e"
      and loaded: "load_items (fallback_store w) = JArr items"
      and embedded: "get_embedding_function (embeddings lib) [''hello world''] \<noteq> []"
  shows "\<exists>w' r. add_documents_to_chroma lib [''hello world''] (Some [JObj [(''source'', JStr ''x'')]]) w
                  = (Inr (), w')
           \<and> records_in (fallback_store w') = items @ [r]
           \<and> field ''text'' r = Some (JStr ''hello world'')
           \<and> field ''metadata'' r = Some (JObj [(''source'', JStr ''x'')])
           \<and> calls w' = calls (snd (get_chroma_db lib w))
                @ (case fst (fst (get_chroma_db lib w)) of
                     None \<Rightarrow> []
                   | Some db \<Rightarrow> [Add_texts db [''hello world''] [JObj [(''source'', JStr ''x'')]]])"
proof -
  let ?ef = "get_embedding_function (embeddings lib)"
  let ?m = "JObj [(''source'', JStr ''x'')]"
  let ?r = "new_record (length items + 1) ''hello world'' ?m (?ef [''hello world''] ! 0)"
  obtain db w1 where opened: "get_chroma_db lib w = ((db, ?ef), w1)"
    using embedding_of_get_chroma_db [of lib w] by (cases "get_chroma_db lib w") auto
  have w1: "fallback_store w1 = fallback_store w"
    using fallback_store_get_chroma_db [of lib w] opened by simp
  have r: "field ''text'' ?r = Some (JStr ''hello world'')" "field ''metadata'' ?r = Some ?m"
    by (simp_all add: field_new_record)
  show ?thesis
  proof (cases db)
    case None
    from loaded w1 have "load_items (fallback_store w1) = JArr items"
      by simp
    from write_fallback_single [where ef = ?ef and m = ?m, OF this embedded]
    have "add_documents_to_chroma lib [''hello world''] (Some [?m]) w
            = (Inr (), w1\<lparr>fallback_store := Json (JArr (items @ [?r]))\<rparr>)"
      using opened None by (simp add: add_documents_to_chroma_def)
    with opened None r show ?thesis
      by (simp add: records_in_def)
  next
    case (Some h)
    obtain e d where add: "add_texts lib w1 h [''hello world''] [?m] = (Some e, d)"
        and other: "\<not> add_mismatch e"
      using always_fails [rule_format, of w1 h "[''hello world'']" "[?m]"]
      by (cases "add_texts lib w1 h [''hello world''] [?m]") auto
    let ?w2 = "(record_call (Add_texts h [''hello world''] [?m]) w1)\<lparr>persist_dir := d\<rparr>"
    from add have call: "add_call lib h [''hello world''] [?m] w1 = (Some e, ?w2)"
      by (simp add: add_call_def)
    from loaded w1 have "load_items (fallback_store ?w2) = JArr items"
      by (simp add: record_call_def)
    from write_fallback_single [where ef = ?ef and m = ?m, OF this embedded]
    have "add_documents_to_chroma lib [''hello world''] (Some [?m]) w
            = (Inr (), ?w2\<lparr>fallback_store := Json (JArr (items @ [?r]))\<rparr>)"
      using opened Some call other
      by (simp add: add_documents_to_chroma_def metadatas_or_default_def)
    with opened Some r show ?thesis
      by (simp add: records_in_def record_call_def)
  qed
qed

theorem ingest_total_resilience_witness:
  "(\<forall>w db ts ms. \<exists>e. fst (add_texts (failing_store ''connection refused'') w db ts ms) = Some e
       \<and> \<not> add_mismatch e)
   \<and> load_items (fallback_store used_world) = JArr []
   \<and> get_embedding_function (embeddings (failing_store ''connection refused'')) [''hello world''] \<noteq> []
   \<and> (\<exists>w' r. add_documents_to_chroma (failing_store ''connection refused'') [''hello world'']
                 (Some [JObj [(''source'', JStr ''x'')]]) used_world = (Inr (), w')
         \<and> records_in (fallback_store w') = [r]
         \<and> field ''text'' r = Some (JStr ''hello world'')
         \<and> field ''metadata'' r = Some (JObj [(''source'', JStr ''x'')])
         \<and> calls w' = [Chroma_call (Some [''chroma.sqlite3'']),
                        Add_texts 0 [''hello world''] [JObj [(''source'', JStr ''x'')]]])"
proof -
  let ?lib = "failing_store ''connection refused''"
  have "\<not> add_mismatch ''connection refused''"
    by (simp add: add_mismatch_def lower_def lower_char_def)
  then have h1: "\<forall>w db ts ms. \<exists>e. fst (add_texts ?lib w db ts ms) = Some e \<and> \<not> add_mismatch e"
    by (simp add: failing_store_def)
  have h2: "load_items (fallback_store used_world) = JArr []"
    by (simp add: used_world_def load_items_def)
  have h3: "get_embedding_function (embeddings ?lib) [''hello world''] \<noteq> []"
    by (simp add: failing_store_def no_providers_def get_embedding_function_def fake_embed_def)
  have opened: "get_chroma_db ?lib used_world
      = ((Some 0, fake_embed), \<lparr>persist_dir = Some [''chroma.sqlite3''], fallback_store = NoFile,
            calls = [Chroma_call (Some [''chroma.sqlite3''])]\<rparr>)"
    by (simp add: get_chroma_db_def failing_store_def no_providers_def get_embedding_function_def
          chroma_call_def record_call_def used_world_def)
  from ingest_total_resilience [OF h1 h2 h3] h1 h2 h3 show ?thesis
    by (simp add: opened)
qed

text \<open>
  A message without \<^verbatim>\<open>dimension\<close>, \<^verbatim>\<open>embedding\<close> and \<^verbatim>\<open>mismatch\<close> may still contain
  \<^verbatim>\<open>shape\<close>. Then the ingestion does not raise and the text reaches the fallback file, but
  on the way the persist directory is removed and created again, the store is reopened
  and the add is made a second time.
\<close>

theorem add_shape_message_retries:
  "\<not> contains ''dimension'' (lower ''Bad SHAPE of input'')
   \<and> \<not> contains ''embedding'' (lower ''Bad SHAPE of input'')
   \<and> \<not> contains ''mismatch'' (lower ''Bad SHAPE of input'')
   \<and> fst (add_documents_to_chroma (failing_store ''Bad SHAPE of input'') [''hello world'']
           (Some [JObj [(''source'', JStr ''x'')]]) used_world) = Inr ()
   \<and> calls (snd (add_documents_to_chroma (failing_store ''Bad SHAPE of input'') [''hello world'']
           (Some [JObj [(''source'', JStr ''x'')]]) used_world))
       = [Chroma_call (Some [''chroma.sqlite3'']),
          Add_texts 0 [''hello world''] [JObj [(''source'', JStr ''x'')]],
          Rmtree, Mkdir, Chroma_call (Some []),
          Add_texts 0 [''hello world''] [JObj [(''source'', JStr ''x'')]]]"
  by code_simp

section \<open>Reinitialising and retrying\<close>

text \<open>
  Claim C6. Let the constructor call of \<^verbatim>\<open>get_chroma_db\<close> raise, and let \<^verbatim>\<open>rmtree\<close> and
  \<^verbatim>\<open>mkdir\<close> succeed. If the lowered message contains \<^verbatim>\<open>dimension\<close>, \<^verbatim>\<open>embedding\<close> or
  \<^verbatim>\<open>mismatch\<close>, the persist directory is removed when it exists and created again, the
  constructor is called exactly once more, on the empty directory, and the handle
  returned is that of this second call, or none when it raises too. With any other message
  no handle is returned and the constructor was called once. Nothing is raised either way.
\<close>

theorem open_reinit_retry_once:
  assumes ctor: "Chroma lib = Some ctor"
      and failed: "ctor (EmbeddingAdapter (get_embedding_function (embeddings lib))) w = (Inl e, d)"
      and fs: "\<forall>w. \<not> rmtree_raises lib w \<and> \<not> mkdir_raises lib w"
  shows "(open_mismatch e \<longrightarrow>
            (\<exists>reinit w2.
                reinit = (if d = None then [Mkdir] else [Rmtree, Mkdir])
              \<and> calls w2 = calls w @ [Chroma_call (persist_dir w)] @ reinit
              \<and> persist_dir w2 = Some []
              \<and> fallback_store w2 = fallback_store w
              \<and> fst (fst (get_chroma_db lib w))
                  = (case fst (ctor (EmbeddingAdapter (get_embedding_function (embeddings lib))) w2) of
                       Inl e2 \<Rightarrow> None
                     | Inr db \<Rightarrow> Some db)
              \<and> calls (snd (get_chroma_db lib w)) = calls w2 @ [Chroma_call (Some [])]))
         \<and> (\<not> open_mismatch e \<longrightarrow>
               fst (fst (get_chroma_db lib w)) = None
             \<and> calls (snd (get_chroma_db lib w)) = calls w @ [Chroma_call (persist_dir w)])"
proof -
  let ?obj = "EmbeddingAdapter (get_embedding_function (embeddings lib))"
  let ?w1 = "(record_call (Chroma_call (persist_dir w)) w)\<lparr>persist_dir := d\<rparr>"
  let ?w2 = "reinit_chroma_dir lib ?w1"
  from failed have first: "chroma_call ctor ?obj w = (Inl e, ?w1)"
    by (simp add: chroma_call_def)
  have other: "fst (fst (get_chroma_db lib w)) = None
             \<and> calls (snd (get_chroma_db lib w)) = calls w @ [Chroma_call (persist_dir w)]"
    if "\<not> open_mismatch e"
    using that ctor first by (simp add: get_chroma_db_def Let_def record_call_def)
  have retry: "\<exists>reinit w2.
                reinit = (if d = None then [Mkdir] else [Rmtree, Mkdir])
              \<and> calls w2 = calls w @ [Chroma_call (persist_dir w)] @ reinit
              \<and> persist_dir w2 = Some []
              \<and> fallback_store w2 = fallback_store w
              \<and> fst (fst (get_chroma_db lib w))
                  = (case fst (ctor ?obj w2) of Inl e2 \<Rightarrow> None | Inr db \<Rightarrow> Some db)
              \<and> calls (snd (get_chroma_db lib w)) = calls w2 @ [Chroma_call (Some [])]"
    if mismatch: "open_mismatch e"
  proof -
    let ?reinit = "if d = None then [Mkdir] else [Rmtree, Mkdir]"
    have a: "?reinit = (if d = None then [Mkdir] else [Rmtree, Mkdir])"
      by simp
    have b: "calls ?w2 = calls w @ [Chroma_call (persist_dir w)] @ ?reinit"
      using calls_reinit_reliable [OF fs, of ?w1] by (simp add: record_call_def)
    have c: "persist_dir ?w2 = Some []"
      by (rule persist_dir_reinit [OF fs])
    have d: "fallback_store ?w2 = fallback_store w"
      by (simp add: fallback_store_reinit record_call_def)
    obtain r2 d2 where second: "ctor ?obj ?w2 = (r2, d2)"
      by (cases "ctor ?obj ?w2")
    then have call2: "chroma_call ctor ?obj ?w2
                        = (r2, (record_call (Chroma_call (Some [])) ?w2)\<lparr>persist_dir := d2\<rparr>)"
      by (simp add: chroma_call_def c)
    have e: "fst (fst (get_chroma_db lib w))
               = (case fst (ctor ?obj ?w2) of Inl e2 \<Rightarrow> None | Inr db \<Rightarrow> Some db)"
      using ctor first mismatch call2 second
      by (simp add: get_chroma_db_def Let_def split: sum.splits)
    have f: "calls (snd (get_chroma_db lib w)) = calls ?w2 @ [Chroma_call (Some [])]"
      using ctor first mismatch call2
      by (simp add: get_chroma_db_def Let_def record_call_def split: sum.splits)
    from a b c d e f show ?thesis
      by blast
  qed
  from other retry show ?thesis
    by blast
qed


text \<open>A stale store that opens after the reinitialisation, and one that fails for another reason.\<close>

lemma open_mismatch_example:
  "open_mismatch ''Embedding dimension 32 does not match collection dimensionality 384''"
  by code_simp

lemma open_mismatch_other: "\<not> open_mismatch ''disk full''"
  by code_simp

theorem open_reinit_retry_once_witness:
  "open_mismatch ''Embedding dimension 32 does not match collection dimensionality 384''
   \<and> fst (fst (get_chroma_db
        (stale_store ''Embedding dimension 32 does not match collection dimensionality 384'')
        used_world)) = Some 0
   \<and> calls (snd (get_chroma_db
        (stale_store ''Embedding dimension 32 does not match collection dimensionality 384'')
        used_world))
       = [Chroma_call (Some [''chroma.sqlite3'']), Rmtree, Mkdir, Chroma_call (Some [])]
   \<and> \<not> open_mismatch ''disk full''
   \<and> fst (fst (get_chroma_db (stale_store ''disk full'') used_world)) = None
   \<and> calls (snd (get_chroma_db (stale_store ''disk full'') used_world))
       = [Chroma_call (Some [''chroma.sqlite3''])]"
proof -
  let ?msg = "''Embedding dimension 32 does not match collection dimensionality 384''"
  let ?ctor = "\<lambda>m (obj :: EmbeddingAdapter) w. case persist_dir w of
                   Some (x # xs) \<Rightarrow> (Inl m :: string + handle, persist_dir w)
                 | _ \<Rightarrow> (Inr 0, Some [])"
  have c: "Chroma (stale_store m) = Some (?ctor m)" for m
    by (simp add: stale_store_def)
  have f: "?ctor m (EmbeddingAdapter (get_embedding_function (embeddings (stale_store m)))) used_world
             = (Inl m, Some [''chroma.sqlite3''])" for m
    by (simp add: used_world_def)
  have fs: "\<forall>w. \<not> rmtree_raises (stale_store m) w \<and> \<not> mkdir_raises (stale_store m) w" for m
    by (simp add: stale_store_def)
  from open_reinit_retry_once [OF c f fs, of ?msg] open_mismatch_example
  have yes: "fst (fst (get_chroma_db (stale_store ?msg) used_world)) = Some 0
      \<and> calls (snd (get_chroma_db (stale_store ?msg) used_world))
          = [Chroma_call (Some [''chroma.sqlite3'']), Rmtree, Mkdir, Chroma_call (Some [])]"
    by (auto simp: used_world_def)
  from open_reinit_retry_once [OF c f fs, of "''disk full''"] open_mismatch_other
  have no: "fst (fst (get_chroma_db (stale_store ''disk full'') used_world)) = None
      \<and> calls (snd (get_chroma_db (stale_store ''disk full'') used_world))
          = [Chroma_call (Some [''chroma.sqlite3''])]"
    by (simp add: used_world_def)
  from yes no open_mismatch_example open_mismatch_other show ?thesis
    by simp
qed

text \<open>
  The add path tests for \<^verbatim>\<open>dimension\<close>, \<^verbatim>\<open>mismatch\<close> and \<^verbatim>\<open>shape\<close>, not for \<^verbatim>\<open>embedding\<close>:
  an add failure whose message contains \<^verbatim>\<open>embedding\<close> alone removes no directory, reopens
  nothing and retries nothing; the text goes to the fallback file at once.
\<close>

theorem add_embedding_message_no_retry:
  "contains ''embedding'' (lower ''Embedding service unavailable'')
   \<and> fst (add_documents_to_chroma (failing_store ''Embedding service unavailable'') [''a''] None
           used_world) = Inr ()
   \<and> calls (snd (add_documents_to_chroma (failing_store ''Embedding service unavailable'') [''a''] None
           used_world))
       = [Chroma_call (Some [''chroma.sqlite3'']), Add_texts 0 [''a''] [JObj []]]
   \<and> length (records_in (fallback_store (snd (add_documents_to_chroma
           (failing_store ''Embedding service unavailable'') [''a''] None used_world)))) = 1"
  by code_simp

text \<open>
  Claim C5, amended. Let the store be open and its \<^verbatim>\<open>add_texts\<close> raise a message which,
  lowered, contains \<^verbatim>\<open>dimension\<close>, \<^verbatim>\<open>mismatch\<close> or \<^verbatim>\<open>shape\<close>. Then the persist directory is
  reinitialised (left empty when \<^verbatim>\<open>rmtree\<close> and \<^verbatim>\<open>mkdir\<close> succeed) and the store is opened
  again. If that yields a handle the add is retried exactly once, so that two adds were
  made in all, and a failure of the retry sends the texts to the fallback store; if it
  yields none, no retry is made and the texts go to the fallback store. The message of the
  store is never raised.
\<close>

theorem add_mismatch_retry:
  assumes opened: "get_chroma_db lib w = ((Some db, ef), w1)"
      and failed: "add_call lib db texts (metadatas_or_default metadatas texts) w1 = (Some e, w2)"
      and mismatch: "add_mismatch e"
  shows "\<exists>db2 w4.
           (calls (reinit_chroma_dir lib w2) = calls w2 @ [Rmtree, Mkdir]
            \<or> calls (reinit_chroma_dir lib w2) = calls w2 @ [Rmtree]
            \<or> calls (reinit_chroma_dir lib w2) = calls w2 @ [Mkdir])
         \<and> ((\<forall>w. \<not> rmtree_raises lib w \<and> \<not> mkdir_raises lib w)
              \<longrightarrow> persist_dir (reinit_chroma_dir lib w2) = Some [])
         \<and> get_chroma_db lib (reinit_chroma_dir lib w2) = ((db2, ef), w4)
         \<and> (case db2 of
               None \<Rightarrow>
                 add_documents_to_chroma lib texts metadatas w = write_fallback ef texts metadatas w4
             | Some h \<Rightarrow>
                 (case add_call lib h texts (metadatas_or_default metadatas texts) w4 of
                    (None, w5) \<Rightarrow>
                      add_documents_to_chroma lib texts metadatas w = (Inr (), persist_call lib h w5)
                  | (Some e2, w5) \<Rightarrow>
                      add_documents_to_chroma lib texts metadatas w
                        = write_fallback ef texts metadatas w5))
         \<and> length (filter is_add (calls (snd (add_documents_to_chroma lib texts metadatas w))))
             = length (filter is_add (calls w)) + (if db2 = None then 1 else 2)"
proof -
  let ?ms = "metadatas_or_default metadatas texts"
  let ?w3 = "reinit_chroma_dir lib w2"
  from opened have ef: "ef = get_embedding_function (embeddings lib)"
    using embedding_of_get_chroma_db [of lib w] by simp
  obtain db2 w4 where reopened: "get_chroma_db lib ?w3 = ((db2, ef), w4)"
    using embedding_of_get_chroma_db [of lib ?w3] ef by (cases "get_chroma_db lib ?w3") auto
  have adds1: "filter is_add (calls w1) = filter is_add (calls w)"
    using adds_get_chroma_db [of lib w] opened by simp
  have adds2: "filter is_add (calls w2) = filter is_add (calls w) @ [Add_texts db texts ?ms]"
    using calls_add_call [of lib db texts ?ms w1] failed adds1 by simp
  have adds4: "filter is_add (calls w4) = filter is_add (calls w) @ [Add_texts db texts ?ms]"
    using adds_get_chroma_db [of lib ?w3] reopened adds2 by (simp add: adds_reinit)
  have a: "calls ?w3 = calls w2 @ [Rmtree, Mkdir] \<or> calls ?w3 = calls w2 @ [Rmtree]
           \<or> calls ?w3 = calls w2 @ [Mkdir]"
    by (rule calls_reinit)
  have b: "(\<forall>w. \<not> rmtree_raises lib w \<and> \<not> mkdir_raises lib w) \<longrightarrow> persist_dir ?w3 = Some []"
    by (simp add: persist_dir_reinit)
  have unfolded: "add_documents_to_chroma lib texts metadatas w =
      (case db2 of
         None \<Rightarrow> write_fallback ef texts metadatas w4
       | Some h \<Rightarrow>
           (case add_call lib h texts ?ms w4 of
              (None, w5) \<Rightarrow> (Inr (), persist_call lib h w5)
            | (Some e2, w5) \<Rightarrow> write_fallback ef texts metadatas w5))"
    using opened failed mismatch reopened
    by (simp add: add_documents_to_chroma_def split: option.splits)
  show ?thesis
  proof (cases db2)
    case None
    with unfolded have r: "add_documents_to_chroma lib texts metadatas w
                             = write_fallback ef texts metadatas w4"
      by simp
    then have "length (filter is_add (calls (snd (add_documents_to_chroma lib texts metadatas w))))
                 = length (filter is_add (calls w)) + 1"
      by (simp add: calls_write_fallback adds4)
    with a b reopened r None show ?thesis
      by auto
  next
    case (Some h)
    obtain r5 w5 where again: "add_call lib h texts ?ms w4 = (r5, w5)"
      by (cases "add_call lib h texts ?ms w4")
    then have adds5: "filter is_add (calls w5)
                        = filter is_add (calls w) @ [Add_texts db texts ?ms, Add_texts h texts ?ms]"
      using calls_add_call [of lib h texts ?ms w4] adds4 by simp
    show ?thesis
    proof (cases r5)
      case None
      with unfolded Some again have r: "add_documents_to_chroma lib texts metadatas w
                                          = (Inr (), persist_call lib h w5)"
        by simp
      then have "length (filter is_add (calls (snd (add_documents_to_chroma lib texts metadatas w))))
                   = length (filter is_add (calls w)) + 2"
        by (simp add: calls_persist_call adds5)
      with a b reopened r Some again None show ?thesis
        by auto
    next
      case (Some e2)
      with unfolded \<open>db2 = Some h\<close> again have r: "add_documents_to_chroma lib texts metadatas w
                                          = write_fallback ef texts metadatas w5"
        by simp
      then have "length (filter is_add (calls (snd (add_documents_to_chroma lib texts metadatas w))))
                   = length (filter is_add (calls w)) + 2"
        by (simp add: calls_write_fallback adds5)
      with a b reopened r \<open>db2 = Some h\<close> again Some show ?thesis
        by auto
    qed
  qed
qed


text \<open>A store that rejects the first add for its dimension and accepts the retry.\<close>

lemma add_mismatch_example:
  "add_mismatch ''Collection expecting embedding with dimension of 384, got 32''"
  by code_simp

theorem add_mismatch_retry_witness:
  "get_chroma_db (stale_store ''x'') fresh_world
     = ((Some 0, fake_embed),
        \<lparr>persist_dir = Some [], fallback_store = NoFile, calls = [Chroma_call None]\<rparr>)
   \<and> add_call (stale_store ''x'') 0 [''a''] (metadatas_or_default None [''a''])
        \<lparr>persist_dir = Some [], fallback_store = NoFile, calls = [Chroma_call None]\<rparr>
     = (Some ''Collection expecting embedding with dimension of 384, got 32'',
        \<lparr>persist_dir = Some [''chroma.sqlite3''], fallback_store = NoFile,
           calls = [Chroma_call None, Add_texts 0 [''a''] [JObj []]]\<rparr>)
   \<and> add_mismatch ''Collection expecting embedding with dimension of 384, got 32''
   \<and> fst (add_documents_to_chroma (stale_store ''x'') [''a''] None fresh_world) = Inr ()
   \<and> length (filter is_add (calls (snd
         (add_documents_to_chroma (stale_store ''x'') [''a''] None fresh_world)))) = 2"
proof -
  let ?lib = "stale_store ''x''"
  let ?w1 = "\<lparr>persist_dir = Some [], fallback_store = NoFile, calls = [Chroma_call None]\<rparr>"
  let ?w2 = "\<lparr>persist_dir = Some [''chroma.sqlite3''], fallback_store = NoFile,
               calls = [Chroma_call None, Add_texts 0 [''a''] [JObj []]]\<rparr>"
  let ?w4 = "\<lparr>persist_dir = Some [], fallback_store = NoFile,
               calls = [Chroma_call None, Add_texts 0 [''a''] [JObj []], Rmtree, Mkdir,
                        Chroma_call (Some [])]\<rparr>"
  have ef: "get_embedding_function (embeddings ?lib) = fake_embed"
    by (simp add: stale_store_def no_providers_def get_embedding_function_def)
  have h1: "get_chroma_db ?lib fresh_world = ((Some 0, fake_embed), ?w1)"
    by (simp add: get_chroma_db_def ef fresh_world_def)
       (simp add: stale_store_def Let_def chroma_call_def record_call_def)
  have h2: "add_call ?lib 0 [''a''] (metadatas_or_default None [''a'']) ?w1
              = (Some ''Collection expecting embedding with dimension of 384, got 32'', ?w2)"
    by (simp add: add_call_def metadatas_or_default_def record_call_def stale_store_def)
  note h3 = add_mismatch_example
  have w3: "reinit_chroma_dir ?lib ?w2
              = \<lparr>persist_dir = Some [], fallback_store = NoFile,
                   calls = [Chroma_call None, Add_texts 0 [''a''] [JObj []], Rmtree, Mkdir]\<rparr>"
    by (simp add: reinit_chroma_dir_def mkdir_def record_call_def stale_store_def)
  have reopened: "get_chroma_db ?lib (reinit_chroma_dir ?lib ?w2) = ((Some 0, fake_embed), ?w4)"
    unfolding w3
    by (simp add: get_chroma_db_def ef)
       (simp add: stale_store_def Let_def chroma_call_def record_call_def)
  have again: "fst (add_call ?lib 0 [''a''] (metadatas_or_default None [''a'']) ?w4) = None"
    by (simp add: add_call_def metadatas_or_default_def record_call_def stale_store_def)
  from add_mismatch_retry [OF h1 h2 h3]
  obtain db2 w4 where
      r: "get_chroma_db ?lib (reinit_chroma_dir ?lib ?w2) = ((db2, fake_embed), w4)"
    and c: "case db2 of
               None \<Rightarrow>
                 add_documents_to_chroma ?lib [''a''] None fresh_world
                   = write_fallback fake_embed [''a''] None w4
             | Some h \<Rightarrow>
                 (case add_call ?lib h [''a''] (metadatas_or_default None [''a'']) w4 of
                    (None, w5) \<Rightarrow>
                      add_documents_to_chroma ?lib [''a''] None fresh_world
                        = (Inr (), persist_call ?lib h w5)
                  | (Some e2, w5) \<Rightarrow>
                      add_documents_to_chroma ?lib [''a''] None fresh_world
                        = write_fallback fake_embed [''a''] None w5)"
    and n: "length (filter is_add (calls (snd (add_documents_to_chroma ?lib [''a''] None fresh_world))))
              = length (filter is_add (calls fresh_world)) + (if db2 = None then 1 else 2)"
    by blast
  from r reopened have db2: "db2 = Some 0" and w4: "w4 = ?w4"
    by simp_all
  from c again have "fst (add_documents_to_chroma ?lib [''a''] None fresh_world) = Inr ()"
    unfolding db2 w4
    by (cases "add_call ?lib 0 [''a''] (metadatas_or_default None [''a'']) ?w4") auto
  moreover from n db2 have "length (filter is_add (calls (snd
         (add_documents_to_chroma ?lib [''a''] None fresh_world)))) = 2"
    by (simp add: fresh_world_def)
  ultimately show ?thesis
    using h1 h2 h3 by simp
qed

end
